theory Spec2Isabelle
  imports Main
begin

section \<open>Exceptions and HTTP status codes\<close>

text \<open>
  The exception classes that can travel through the two modules. \<open>HTTPException\<close> is the
  only class the admin proxy catches; the others are raised by the store layer
  (\<open>IntegrityError\<close>, \<open>MultipleResultsFound\<close>), by payload validation, or by Python's own
  call protocol (\<open>TypeError\<close> for a keyword the callee does not declare, \<open>AttributeError\<close>
  for a payload object without the attribute that is read).
  \<open>HTTPException\<close> carries the status code and the detail as it was passed to the
  constructor (\<open>None\<close> when the raise site gives a status only).
\<close>

datatype exn =
    HTTPException int "string option"
  | IntegrityError string
  | MultipleResultsFound
  | TypeError string
  | AttributeError string
  | ValidationError string

definition HTTP_201_CREATED :: int where
  "HTTP_201_CREATED = 201"

definition HTTP_404_NOT_FOUND :: int where
  "HTTP_404_NOT_FOUND = 404"

definition HTTP_409_CONFLICT :: int where
  "HTTP_409_CONFLICT = 409"

text \<open>
  \<open>exc.detail\<close>: the detail given at the raise site, else the standard reason phrase of the
  status code. The table holds the two codes that \<open>tenant.py\<close> raises, 404 and 409; for
  any other code the phrase is not tabulated and the empty string stands in its place,
  so nothing below reads the phrase of another code.
\<close>

definition status_phrase :: "int \<Rightarrow> string" where
  "status_phrase st =
     (if st = 404 then ''Not Found'' else if st = 409 then ''Conflict'' else [])"

definition detail :: "int \<Rightarrow> string option \<Rightarrow> string" where
  "detail st d = (case d of Some m \<Rightarrow> m | None \<Rightarrow> status_phrase st)"

section \<open>The Tenant record and the store\<close>

text \<open>
  Modelled from the spec: the \<open>Tenant\<close> entity of \<open>database.model\<close> (section 3 of the
  specification): store-assigned \<open>id\<close> (\<open>None\<close> while the object is transient), unique
  \<open>name\<close>, \<open>is_admin\<close>, \<open>api_key\<close>, \<open>ssh_key\<close>, \<open>active\<close> and three nullable
  resource-governance attributes. Time spans are counted in seconds.
\<close>

record Tenant =
  t_id :: "int option"
  t_name :: string
  t_is_admin :: bool
  t_api_key :: "string option"
  t_ssh_key :: "string option"
  t_active :: bool
  t_node_quota :: "int option"
  t_session_lifetime :: "int option"
  t_session_lifetime_max :: "int option"

text \<open>
  Modelled from the spec: the column defaults of the store. A new tenant is active, and
  the nullable resource-governance attributes start out null.
\<close>

definition default_active :: bool where
  "default_active = True"

definition default_node_quota :: "int option" where
  "default_node_quota = None"

definition default_session_lifetime :: "int option" where
  "default_session_lifetime = None"

definition default_session_lifetime_max :: "int option" where
  "default_session_lifetime_max = None"

text \<open>
  \<open>Tenant(name=..., is_admin=..., api_key=..., ssh_key=...)\<close>: the constructor call of
  \<open>create_tenant\<close>. The four keyword arguments are stored; every other column is left to
  the store's default.
\<close>

definition Tenant_init :: "string \<Rightarrow> bool \<Rightarrow> string option \<Rightarrow> string option \<Rightarrow> Tenant" where
  "Tenant_init name is_admin api_key ssh_key =
     \<lparr>t_id = None, t_name = name, t_is_admin = is_admin, t_api_key = api_key,
      t_ssh_key = ssh_key, t_active = default_active, t_node_quota = default_node_quota,
      t_session_lifetime = default_session_lifetime,
      t_session_lifetime_max = default_session_lifetime_max\<rparr>"

text \<open>
  Modelled from the spec: the relational store. It holds the committed Tenant rows and the
  sequence from which the next \<open>id\<close> is drawn.
\<close>

record db =
  rows :: "Tenant list"
  next_id :: int

definition empty_db :: db where
  "empty_db = \<lparr>rows = [], next_id = 1\<rparr>"

text \<open>
  Modelled from the spec: a transactional session (unit of work). \<open>add\<close> and \<open>delete\<close>
  only register an object; attribute assignment on a loaded object marks it dirty.
  Nothing reaches the store before \<open>commit\<close>, which flushes the registered work in one
  transaction: inserts, then updates, then deletes. An insert whose name is already
  taken violates the uniqueness constraint; the flush then raises \<open>IntegrityError\<close> and
  the store keeps its rows.
\<close>

record session =
  database :: db
  new :: "Tenant list"
  dirty :: "Tenant list"
  deleted :: "Tenant list"

definition open_session :: "db \<Rightarrow> session" where
  "open_session d = \<lparr>database = d, new = [], dirty = [], deleted = []\<rparr>"

definition add :: "Tenant \<Rightarrow> session \<Rightarrow> session" where
  "add t s = s\<lparr>new := new s @ [t]\<rparr>"

definition delete :: "Tenant \<Rightarrow> session \<Rightarrow> session" where
  "delete t s = s\<lparr>deleted := deleted s @ [t]\<rparr>"

definition mark_dirty :: "Tenant \<Rightarrow> session \<Rightarrow> session" where
  "mark_dirty t s = s\<lparr>dirty := dirty s @ [t]\<rparr>"

definition rollback :: "session \<Rightarrow> session" where
  "rollback s = open_session (database s)"

text \<open>
  The text of the store's complaint about a name that is taken. Its wording is the
  store's own; the properties below only say that it is passed on.
\<close>

definition unique_violation :: "string \<Rightarrow> string" where
  "unique_violation n = ''UNIQUE constraint failed: tenants.name: '' @ n"

fun flush_new :: "Tenant list \<Rightarrow> db \<Rightarrow> exn + (db \<times> Tenant list)" where
  "flush_new [] d = Inr (d, [])"
| "flush_new (t # ts) d =
     (if t_name t \<in> set (map t_name (rows d))
      then Inl (IntegrityError (unique_violation (t_name t)))
      else
        (let t' = t\<lparr>t_id := Some (next_id d)\<rparr>;
             d' = \<lparr>rows = rows d @ [t'], next_id = next_id d + 1\<rparr>
         in case flush_new ts d' of
              Inl e \<Rightarrow> Inl e
            | Inr (d'', out) \<Rightarrow> Inr (d'', t' # out)))"

fun flush_dirty :: "Tenant list \<Rightarrow> Tenant list \<Rightarrow> Tenant list" where
  "flush_dirty [] rs = rs"
| "flush_dirty (t # ts) rs =
     flush_dirty ts (map (\<lambda>r. if t_id r = t_id t then t else r) rs)"

definition flush_deleted :: "Tenant list \<Rightarrow> Tenant list \<Rightarrow> Tenant list" where
  "flush_deleted ts rs = filter (\<lambda>r. t_id r \<notin> set (map t_id ts)) rs"

text \<open>
  \<open>commit\<close> returns the session after the transaction and the inserted objects as the
  store persisted them (with their assigned ids), in the order they were added: Python
  code sees these values through its references to the objects it added.
\<close>

definition commit :: "session \<Rightarrow> exn + (session \<times> Tenant list)" where
  "commit s =
     (case flush_new (new s) (database s) of
        Inl e \<Rightarrow> Inl e
      | Inr (d, persisted) \<Rightarrow>
          Inr (open_session
                 (d\<lparr>rows := flush_deleted (deleted s) (flush_dirty (dirty s) (rows d))\<rparr>),
               persisted))"

text \<open>\<open>Result.scalar_one_or_none()\<close>: no row, the one row, or an exception for several.\<close>

fun scalar_one_or_none :: "'a list \<Rightarrow> exn + 'a option" where
  "scalar_one_or_none [] = Inr None"
| "scalar_one_or_none [x] = Inr (Some x)"
| "scalar_one_or_none (x # y # zs) = Inl MultipleResultsFound"

text \<open>\<open>select(Tenant).filter_by(id=id)\<close> and \<open>select(Tenant.id).filter_by(name=name)\<close>.\<close>

definition select_by_id :: "int \<Rightarrow> session \<Rightarrow> Tenant list" where
  "select_by_id i s = filter (\<lambda>t. t_id t = Some i) (rows (database s))"

definition select_id_by_name :: "string \<Rightarrow> session \<Rightarrow> int option list" where
  "select_id_by_name n s = map t_id (filter (\<lambda>t. t_name t = n) (rows (database s)))"

section \<open>The tenant controller (\<open>app/controllers/tenant.py\<close>)\<close>

text \<open>
  Modelled from the spec: \<open>TenantCreateModel\<close> of \<open>api_models\<close>, the validated creation
  payload. The controller reads \<open>name\<close>, \<open>is_admin\<close>, \<open>api_key\<close> and \<open>ssh_key\<close>; the admin
  context also passes the three resource-governance attributes. The admin context
  passes no \<open>api_key\<close>, so the field is optional.
\<close>

record TenantCreateModel =
  c_name :: string
  c_is_admin :: bool
  c_api_key :: "string option"
  c_ssh_key :: string
  c_node_quota :: "int option"
  c_session_lifetime :: "int option"
  c_session_lifetime_max :: "int option"

text \<open>
  The dictionaries the controller functions and the admin context return:
  \<open>{"action": a, "tenant": t}\<close>, \<open>{"action": a, "tenants": ts}\<close> and
  \<open>{"error": {"detail": d}}\<close>.
\<close>

datatype result =
    TenantResult string Tenant
  | TenantResultCollection string "Tenant list"
  | ErrorResult string

type_synonym 'a outcome = "(exn + 'a) \<times> session"

definition get_all_tenants :: "session \<Rightarrow> result outcome" where
  "get_all_tenants db_async_session =
     (Inr (TenantResultCollection ''get'' (rows (database db_async_session))),
      db_async_session)"

definition get_tenant :: "int \<Rightarrow> session \<Rightarrow> result outcome" where
  "get_tenant i db_async_session =
     (case scalar_one_or_none (select_by_id i db_async_session) of
        Inl e \<Rightarrow> (Inl e, db_async_session)
      | Inr None \<Rightarrow> (Inl (HTTPException HTTP_404_NOT_FOUND None), db_async_session)
      | Inr (Some tenant) \<Rightarrow> (Inr (TenantResult ''get'' tenant), db_async_session))"

text \<open>
  \<open>create_tenant\<close> builds the object from four fields of the payload, registers it and
  commits. Only \<open>IntegrityError\<close> is translated, into a 409 whose detail is \<open>str(exc)\<close>.
  After the commit the local \<open>tenant\<close> refers to the persisted object, which was added
  last to the session.
\<close>

definition create_tenant :: "TenantCreateModel \<Rightarrow> session \<Rightarrow> result outcome" where
  "create_tenant data db_async_session =
     (let tenant = Tenant_init (c_name data) (c_is_admin data) (c_api_key data)
                     (Some (c_ssh_key data));
          s1 = add tenant db_async_session
      in case commit s1 of
           Inl (IntegrityError m) \<Rightarrow> (Inl (HTTPException HTTP_409_CONFLICT (Some m)), s1)
         | Inl e \<Rightarrow> (Inl e, s1)
         | Inr (s2, persisted) \<Rightarrow> (Inr (TenantResult ''post'' (last persisted)), s2))"

definition delete_tenant :: "int \<Rightarrow> session \<Rightarrow> result outcome" where
  "delete_tenant i db_async_session =
     (case scalar_one_or_none (select_by_id i db_async_session) of
        Inl e \<Rightarrow> (Inl e, db_async_session)
      | Inr None \<Rightarrow> (Inl (HTTPException HTTP_404_NOT_FOUND None), db_async_session)
      | Inr (Some tenant) \<Rightarrow>
          (let s1 = delete tenant db_async_session
           in case commit s1 of
                Inl e \<Rightarrow> (Inl e, s1)
              | Inr (s2, persisted) \<Rightarrow> (Inr (TenantResult ''delete'' tenant), s2)))"

text \<open>
  The status of a successful response comes from the route decorator: 201 for the POST
  route (\<open>status_code=HTTP_201_CREATED\<close>), the framework's default 200 for the others.
  A raised \<open>HTTPException\<close> is answered with its own status code.
\<close>

datatype route = GET_collection | GET_by_id | POST_create | DELETE_by_id

definition success_status :: "route \<Rightarrow> int" where
  "success_status r = (case r of POST_create \<Rightarrow> HTTP_201_CREATED | _ \<Rightarrow> 200)"

text \<open>
  Modelled from the spec: \<open>req_db_async_session\<close> of \<open>app.database\<close>, the dependency that
  gives each request a session of its own.
\<close>

definition req_db_async_session :: "db \<Rightarrow> session" where
  "req_db_async_session d = open_session d"

section \<open>Payloads of the update path\<close>

text \<open>
  Modelled from the spec: \<open>TenantRetireModel\<close> of \<open>api_models\<close>, the payload of the
  retire/unretire transition. It carries the new value of \<open>active\<close> and nothing else.
\<close>

record TenantRetireModel =
  r_active :: bool

text \<open>
  Modelled from the spec: \<open>TenantUpdateModel\<close> of \<open>api_models\<close>, the partial-update
  payload: a presence-flagged set of the five optional fields. For each field the outer
  option says whether the field is present in the payload; the inner one is the value,
  which may be null.
\<close>

record TenantUpdateModel =
  u_api_key :: "string option option"
  u_ssh_key :: "string option option"
  u_node_quota :: "int option option"
  u_session_lifetime :: "int option option"
  u_session_lifetime_max :: "int option option"

datatype payload =
    CreateData TenantCreateModel
  | RetireData TenantRetireModel
  | UpdateData TenantUpdateModel

text \<open>
  Modelled from the spec: \<open>update_tenant\<close> of the tenant controller, which the admin
  context calls and \<open>tenant.py\<close> does not define. It fails with NotFound when the id has
  no record; otherwise it applies only the fields present in the payload and commits.
  The specification does not name the action label of the result; \<open>update_action\<close>
  stands for it. A creation payload is no update payload and is rejected.
\<close>

definition update_action :: string where
  "update_action = ''put''"

definition set_fields :: "payload \<Rightarrow> Tenant \<Rightarrow> exn + Tenant" where
  "set_fields data tenant =
     (case data of
        RetireData r \<Rightarrow> Inr (tenant\<lparr>t_active := r_active r\<rparr>)
      | UpdateData u \<Rightarrow>
          Inr (tenant
                \<lparr>t_api_key := (case u_api_key u of None \<Rightarrow> t_api_key tenant | Some v \<Rightarrow> v),
                 t_ssh_key := (case u_ssh_key u of None \<Rightarrow> t_ssh_key tenant | Some v \<Rightarrow> v),
                 t_node_quota :=
                   (case u_node_quota u of None \<Rightarrow> t_node_quota tenant | Some v \<Rightarrow> v),
                 t_session_lifetime :=
                   (case u_session_lifetime u of
                      None \<Rightarrow> t_session_lifetime tenant | Some v \<Rightarrow> v),
                 t_session_lifetime_max :=
                   (case u_session_lifetime_max u of
                      None \<Rightarrow> t_session_lifetime_max tenant | Some v \<Rightarrow> v)\<rparr>)
      | CreateData c \<Rightarrow> Inl (TypeError ''data''))"

definition update_tenant :: "int \<Rightarrow> payload \<Rightarrow> session \<Rightarrow> result outcome" where
  "update_tenant i data db_async_session =
     (case scalar_one_or_none (select_by_id i db_async_session) of
        Inl e \<Rightarrow> (Inl e, db_async_session)
      | Inr None \<Rightarrow> (Inl (HTTPException HTTP_404_NOT_FOUND None), db_async_session)
      | Inr (Some tenant) \<Rightarrow>
          (case set_fields data tenant of
             Inl e \<Rightarrow> (Inl e, db_async_session)
           | Inr tenant' \<Rightarrow>
               (let s1 = mark_dirty tenant' db_async_session
                in case commit s1 of
                     Inl e \<Rightarrow> (Inl e, s1)
                   | Inr (s2, persisted) \<Rightarrow> (Inr (TenantResult update_action tenant'), s2))))"

section \<open>Calling a controller function with keyword arguments\<close>

text \<open>
  The admin proxy calls a controller function with keywords only:
  \<open>controller_function(tenant=..., db_async_session=..., **kwargs)\<close>. The keywords that
  occur in \<open>admin.py\<close> are \<open>tenant\<close>, \<open>id\<close> and \<open>data\<close>; the session is threaded as state.
\<close>

record FakeAPITenant =
  fake_is_admin :: bool

definition fake_api_tenant :: FakeAPITenant where
  "fake_api_tenant = \<lparr>fake_is_admin = True\<rparr>"

record kwargs =
  kw_tenant :: "FakeAPITenant option"
  kw_id :: "int option"
  kw_data :: "payload option"

definition no_kwargs :: kwargs where
  "no_kwargs = \<lparr>kw_tenant = None, kw_id = None, kw_data = None\<rparr>"

type_synonym controller = "kwargs \<Rightarrow> session \<Rightarrow> result outcome"

definition given :: "kwargs \<Rightarrow> string list" where
  "given kw =
     (if kw_tenant kw = None then [] else [''tenant'']) @
     (if kw_id kw = None then [] else [''id'']) @
     (if kw_data kw = None then [] else [''data''])"

text \<open>
  Python binds keywords by name. A keyword that the function does not declare raises
  \<open>TypeError\<close> (unexpected keyword argument) before the body runs, and so does a declared
  parameter without a default that gets no argument. None of the functions of
  \<open>tenant.py\<close> takes \<open>**kwargs\<close>.
\<close>

definition unexpected_keyword :: "string list \<Rightarrow> kwargs \<Rightarrow> string option" where
  "unexpected_keyword params kw = find (\<lambda>k. k \<notin> set params) (given kw)"

text \<open>
  The four functions of \<open>tenant.py\<close> as callables, the way \<open>admin.py\<close> hands them to the
  proxy (\<open>tenant.get_all_tenants\<close>, \<open>tenant.get_tenant\<close>, \<open>tenant.create_tenant\<close>,
  \<open>tenant.delete_tenant\<close>). Next to \<open>db_async_session\<close> they declare no parameter, \<open>id\<close>,
  \<open>data\<close> and \<open>id\<close>; none declares a parameter \<open>tenant\<close>. The route decorators return the
  function unchanged. A payload of another class than \<open>TenantCreateModel\<close> has no
  attribute \<open>name\<close> for \<open>create_tenant\<close> to read.
\<close>

definition tenant_get_all_tenants :: controller where
  "tenant_get_all_tenants kw s =
     (case unexpected_keyword [] kw of
        Some k \<Rightarrow> (Inl (TypeError k), s)
      | None \<Rightarrow> get_all_tenants s)"

definition tenant_get_tenant :: controller where
  "tenant_get_tenant kw s =
     (case unexpected_keyword [''id''] kw of
        Some k \<Rightarrow> (Inl (TypeError k), s)
      | None \<Rightarrow>
          (case kw_id kw of
             None \<Rightarrow> (Inl (TypeError ''id''), s)
           | Some i \<Rightarrow> get_tenant i s))"

definition tenant_create_tenant :: controller where
  "tenant_create_tenant kw s =
     (case unexpected_keyword [''data''] kw of
        Some k \<Rightarrow> (Inl (TypeError k), s)
      | None \<Rightarrow>
          (case kw_data kw of
             None \<Rightarrow> (Inl (TypeError ''data''), s)
           | Some (CreateData data) \<Rightarrow> create_tenant data s
           | Some _ \<Rightarrow> (Inl (AttributeError ''name''), s)))"

definition tenant_delete_tenant :: controller where
  "tenant_delete_tenant kw s =
     (case unexpected_keyword [''id''] kw of
        Some k \<Rightarrow> (Inl (TypeError k), s)
      | None \<Rightarrow>
          (case kw_id kw of
             None \<Rightarrow> (Inl (TypeError ''id''), s)
           | Some i \<Rightarrow> delete_tenant i s))"

text \<open>
  Modelled from the spec: the signature of the missing \<open>tenant.update_tenant\<close>. It takes
  the caller context the proxy passes (which it does not consult), the id and the
  payload.
\<close>

definition tenant_update_tenant :: controller where
  "tenant_update_tenant kw s =
     (case unexpected_keyword [''tenant'', ''id'', ''data''] kw of
        Some k \<Rightarrow> (Inl (TypeError k), s)
      | None \<Rightarrow>
          (case (kw_tenant kw, kw_id kw, kw_data kw) of
             (Some caller, Some i, Some data) \<Rightarrow> update_tenant i data s
           | (None, _, _) \<Rightarrow> (Inl (TypeError ''tenant''), s)
           | (_, None, _) \<Rightarrow> (Inl (TypeError ''id''), s)
           | (_, _, None) \<Rightarrow> (Inl (TypeError ''data''), s)))"

section \<open>The admin context (\<open>admin.py\<close>)\<close>

text \<open>
  Modelled from the spec: \<open>async_session_maker\<close> and \<open>sync_session_maker\<close> of \<open>database\<close>.
  Each call opens a fresh session on the store; nothing is shared between calls but the
  store itself, so an admin operation is a function from the store to a result and the
  store afterwards. \<open>Inl\<close> is an exception that reaches the caller of the admin context.
\<close>

definition async_session_maker :: "db \<Rightarrow> session" where
  "async_session_maker d = open_session d"

definition sync_session_maker :: "db \<Rightarrow> session" where
  "sync_session_maker d = open_session d"

type_synonym admin_outcome = "(exn + result) \<times> db"

text \<open>
  \<open>proxy_controller_function_async\<close>. The call passes \<open>tenant\<close> next to \<open>**kwargs\<close>, so a
  \<open>tenant\<close> among the keyword arguments is a \<open>TypeError\<close> of the call itself. The one
  \<open>except\<close> clause names \<open>HTTPException\<close>: it rolls back and returns the error dictionary.
  Any other exception leaves through \<open>async with\<close>, whose transaction scope rolls back
  and re-raises. On a normal return the transaction scope commits on exit, outside
  the \<open>try\<close>.
\<close>

definition proxy_controller_function_async :: "controller \<Rightarrow> kwargs \<Rightarrow> db \<Rightarrow> admin_outcome" where
  "proxy_controller_function_async controller_function kw d =
     (let db_async_session = async_session_maker d
      in if kw_tenant kw \<noteq> None then (Inl (TypeError ''tenant''), d)
         else
           (case controller_function (kw\<lparr>kw_tenant := Some fake_api_tenant\<rparr>) db_async_session of
              (Inl (HTTPException st det), s1) \<Rightarrow>
                (Inr (ErrorResult (detail st det)), database (rollback s1))
            | (Inl e, s1) \<Rightarrow> (Inl e, database (rollback s1))
            | (Inr r, s1) \<Rightarrow>
                (case commit s1 of
                   Inl e \<Rightarrow> (Inl e, database (rollback s1))
                 | Inr (s2, persisted) \<Rightarrow> (Inr r, database s2))))"

text \<open>\<open>proxy_controller_function\<close> runs the coroutine to completion (\<open>asyncio.run\<close>).\<close>

definition proxy_controller_function :: "controller \<Rightarrow> kwargs \<Rightarrow> db \<Rightarrow> admin_outcome" where
  "proxy_controller_function controller_function kw d =
     proxy_controller_function_async controller_function kw d"

definition get_tenant_id :: "string \<Rightarrow> db \<Rightarrow> exn + int option" where
  "get_tenant_id name d =
     (let db_sync_session = sync_session_maker d
      in case scalar_one_or_none (select_id_by_name name db_sync_session) of
           Inl e \<Rightarrow> Inl e
         | Inr None \<Rightarrow> Inr None
         | Inr (Some v) \<Rightarrow> Inr v)"

definition list_tenants :: "db \<Rightarrow> admin_outcome" where
  "list_tenants d = proxy_controller_function tenant_get_all_tenants no_kwargs d"

definition show_tenant :: "string \<Rightarrow> db \<Rightarrow> admin_outcome" where
  "show_tenant name d =
     (case get_tenant_id name d of
        Inl e \<Rightarrow> (Inl e, d)
      | Inr None \<Rightarrow> (Inr (ErrorResult ''Tenant not found''), d)
      | Inr (Some tenant_id) \<Rightarrow>
          proxy_controller_function tenant_get_tenant (no_kwargs\<lparr>kw_id := Some tenant_id\<rparr>) d)"

text \<open>
  \<open>AdminContext.create_tenant\<close> builds the creation payload from its six arguments (no
  \<open>api_key\<close>) and hands it to \<open>tenant.create_tenant\<close> through the proxy.
\<close>

definition create_tenant_data ::
  "string \<Rightarrow> string \<Rightarrow> int option \<Rightarrow> int option \<Rightarrow> int option \<Rightarrow> bool \<Rightarrow> TenantCreateModel" where
  "create_tenant_data name ssh_key node_quota session_lifetime session_lifetime_max is_admin =
     \<lparr>c_name = name, c_is_admin = is_admin, c_api_key = None, c_ssh_key = ssh_key,
      c_node_quota = node_quota, c_session_lifetime = session_lifetime,
      c_session_lifetime_max = session_lifetime_max\<rparr>"

definition AdminContext_create_tenant ::
  "string \<Rightarrow> string \<Rightarrow> int option \<Rightarrow> int option \<Rightarrow> int option \<Rightarrow> bool \<Rightarrow> db \<Rightarrow> admin_outcome" where
  "AdminContext_create_tenant name ssh_key node_quota session_lifetime session_lifetime_max
       is_admin d =
     (let tenant_data =
            create_tenant_data name ssh_key node_quota session_lifetime session_lifetime_max
              is_admin
      in proxy_controller_function tenant_create_tenant
           (no_kwargs\<lparr>kw_data := Some (CreateData tenant_data)\<rparr>) d)"

definition retire_unretire_tenant :: "string \<Rightarrow> bool \<Rightarrow> db \<Rightarrow> admin_outcome" where
  "retire_unretire_tenant name retire d =
     (case get_tenant_id name d of
        Inl e \<Rightarrow> (Inl e, d)
      | Inr None \<Rightarrow> (Inr (ErrorResult ''Tenant not found''), d)
      | Inr (Some tenant_id) \<Rightarrow>
          (let retire_data = \<lparr>r_active = \<not> retire\<rparr>
           in proxy_controller_function tenant_update_tenant
                (no_kwargs\<lparr>kw_id := Some tenant_id, kw_data := Some (RetireData retire_data)\<rparr>)
                d))"

subsection \<open>\<open>AdminContext.update_tenant\<close> and its omit-sentinel\<close>

text \<open>
  Each optional argument is \<open>UNSET\<close> (the default: omit), \<open>None\<close> or a value. The keyword
  dictionary is a comprehension over \<open>locals()\<close>, which at that point holds \<open>self\<close>, the six
  parameters and \<open>tenant_id\<close>; an entry is kept unless its key is \<open>name\<close> or its value is
  the sentinel.
\<close>

datatype 'a maybe_unset = UNSET | Value 'a

datatype pyval =
    PyUNSET
  | PyNone
  | PyStr string
  | PyInt int
  | PyTimedelta int
  | PyAdminContext

fun py_str :: "string option maybe_unset \<Rightarrow> pyval" where
  "py_str UNSET = PyUNSET"
| "py_str (Value None) = PyNone"
| "py_str (Value (Some v)) = PyStr v"

fun py_int :: "int option maybe_unset \<Rightarrow> pyval" where
  "py_int UNSET = PyUNSET"
| "py_int (Value None) = PyNone"
| "py_int (Value (Some v)) = PyInt v"

fun py_timedelta :: "int option maybe_unset \<Rightarrow> pyval" where
  "py_timedelta UNSET = PyUNSET"
| "py_timedelta (Value None) = PyNone"
| "py_timedelta (Value (Some v)) = PyTimedelta v"

definition update_tenant_locals ::
  "string \<Rightarrow> string option maybe_unset \<Rightarrow> string option maybe_unset \<Rightarrow> int option maybe_unset \<Rightarrow>
   int option maybe_unset \<Rightarrow> int option maybe_unset \<Rightarrow> int \<Rightarrow> (string \<times> pyval) list" where
  "update_tenant_locals name api_key ssh_key node_quota session_lifetime session_lifetime_max
       tenant_id =
     [(''self'', PyAdminContext), (''name'', PyStr name), (''api_key'', py_str api_key),
      (''ssh_key'', py_str ssh_key), (''node_quota'', py_int node_quota),
      (''session_lifetime'', py_timedelta session_lifetime),
      (''session_lifetime_max'', py_timedelta session_lifetime_max),
      (''tenant_id'', PyInt tenant_id)]"

definition update_tenant_data ::
  "string \<Rightarrow> string option maybe_unset \<Rightarrow> string option maybe_unset \<Rightarrow> int option maybe_unset \<Rightarrow>
   int option maybe_unset \<Rightarrow> int option maybe_unset \<Rightarrow> int \<Rightarrow> (string \<times> pyval) list" where
  "update_tenant_data name api_key ssh_key node_quota session_lifetime session_lifetime_max
       tenant_id =
     filter (\<lambda>(key, value). key \<noteq> ''name'' \<and> value \<noteq> PyUNSET)
       (update_tenant_locals name api_key ssh_key node_quota session_lifetime
          session_lifetime_max tenant_id)"

text \<open>
  Modelled from the spec: the constructor of \<open>TenantUpdateModel\<close>, called with the
  dictionary as keyword arguments. A declared field is present in the payload exactly
  when its keyword is given; a value of the wrong type is a validation error; a keyword
  that is no field of the model is ignored.
\<close>

definition str_field :: "(string \<times> pyval) list \<Rightarrow> string \<Rightarrow> exn + string option option" where
  "str_field kws k =
     (case map_of kws k of
        None \<Rightarrow> Inr None
      | Some PyNone \<Rightarrow> Inr (Some None)
      | Some (PyStr v) \<Rightarrow> Inr (Some (Some v))
      | Some _ \<Rightarrow> Inl (ValidationError k))"

definition int_field :: "(string \<times> pyval) list \<Rightarrow> string \<Rightarrow> exn + int option option" where
  "int_field kws k =
     (case map_of kws k of
        None \<Rightarrow> Inr None
      | Some PyNone \<Rightarrow> Inr (Some None)
      | Some (PyInt v) \<Rightarrow> Inr (Some (Some v))
      | Some _ \<Rightarrow> Inl (ValidationError k))"

definition timedelta_field :: "(string \<times> pyval) list \<Rightarrow> string \<Rightarrow> exn + int option option" where
  "timedelta_field kws k =
     (case map_of kws k of
        None \<Rightarrow> Inr None
      | Some PyNone \<Rightarrow> Inr (Some None)
      | Some (PyTimedelta v) \<Rightarrow> Inr (Some (Some v))
      | Some _ \<Rightarrow> Inl (ValidationError k))"

definition TenantUpdateModel_init :: "(string \<times> pyval) list \<Rightarrow> exn + TenantUpdateModel" where
  "TenantUpdateModel_init kws =
     (case str_field kws ''api_key'' of Inl e \<Rightarrow> Inl e | Inr a \<Rightarrow>
      case str_field kws ''ssh_key'' of Inl e \<Rightarrow> Inl e | Inr b \<Rightarrow>
      case int_field kws ''node_quota'' of Inl e \<Rightarrow> Inl e | Inr c \<Rightarrow>
      case timedelta_field kws ''session_lifetime'' of Inl e \<Rightarrow> Inl e | Inr f \<Rightarrow>
      case timedelta_field kws ''session_lifetime_max'' of Inl e \<Rightarrow> Inl e | Inr g \<Rightarrow>
        Inr \<lparr>u_api_key = a, u_ssh_key = b, u_node_quota = c, u_session_lifetime = f,
             u_session_lifetime_max = g\<rparr>)"

definition AdminContext_update_tenant ::
  "string \<Rightarrow> string option maybe_unset \<Rightarrow> string option maybe_unset \<Rightarrow> int option maybe_unset \<Rightarrow>
   int option maybe_unset \<Rightarrow> int option maybe_unset \<Rightarrow> db \<Rightarrow> admin_outcome" where
  "AdminContext_update_tenant name api_key ssh_key node_quota session_lifetime
       session_lifetime_max d =
     (case get_tenant_id name d of
        Inl e \<Rightarrow> (Inl e, d)
      | Inr None \<Rightarrow> (Inr (ErrorResult ''Tenant not found''), d)
      | Inr (Some tenant_id) \<Rightarrow>
          (let data = update_tenant_data name api_key ssh_key node_quota session_lifetime
                        session_lifetime_max tenant_id
           in case TenantUpdateModel_init data of
                Inl e \<Rightarrow> (Inl e, d)
              | Inr model \<Rightarrow>
                  proxy_controller_function tenant_update_tenant
                    (no_kwargs\<lparr>kw_id := Some tenant_id, kw_data := Some (UpdateData model)\<rparr>)
                    d))"

section \<open>Notions used to state the properties\<close>

text \<open>
  Modelled from the spec: the invariants the store maintains by itself. Identities are
  unique and were drawn from the sequence; names are unique (section 3 of the
  specification).
\<close>

definition wf_db :: "db \<Rightarrow> bool" where
  "wf_db d \<longleftrightarrow>
     distinct (map t_id (rows d)) \<and> distinct (map t_name (rows d)) \<and>
     (\<forall>t \<in> set (rows d). case t_id t of None \<Rightarrow> False | Some i \<Rightarrow> i < next_id d)"

text \<open>What the caller explicitly passed: nothing for the sentinel, else the value.\<close>

fun passed :: "'a maybe_unset \<Rightarrow> 'a option" where
  "passed UNSET = None"
| "passed (Value v) = Some v"

text \<open>The store with one row replaced, and with one row removed.\<close>

definition replace_row :: "Tenant \<Rightarrow> Tenant \<Rightarrow> db \<Rightarrow> db" where
  "replace_row t t' d = d\<lparr>rows := map (\<lambda>r. if r = t then t' else r) (rows d)\<rparr>"

definition remove_row :: "Tenant \<Rightarrow> db \<Rightarrow> db" where
  "remove_row t d = d\<lparr>rows := filter (\<lambda>r. r \<noteq> t) (rows d)\<rparr>"

text \<open>The record that \<open>create_tenant\<close> persists on a store for a payload.\<close>

definition persisted_tenant :: "TenantCreateModel \<Rightarrow> db \<Rightarrow> Tenant" where
  "persisted_tenant data d =
     (Tenant_init (c_name data) (c_is_admin data) (c_api_key data) (Some (c_ssh_key data)))
       \<lparr>t_id := Some (next_id d)\<rparr>"

text \<open>
  A concrete scenario, the one of section 8 of the specification: the payload that creates
  tenant \<open>alice\<close>, her record, and the store that holds it.
\<close>

definition alice_data :: TenantCreateModel where
  "alice_data =
     \<lparr>c_name = ''alice'', c_is_admin = False, c_api_key = None, c_ssh_key = ''ssh-rsa AAA'',
      c_node_quota = Some 5, c_session_lifetime = None, c_session_lifetime_max = None\<rparr>"

definition alice :: Tenant where
  "alice =
     \<lparr>t_id = Some 1, t_name = ''alice'', t_is_admin = False, t_api_key = None,
      t_ssh_key = Some ''ssh-rsa AAA'', t_active = True, t_node_quota = None,
      t_session_lifetime = None, t_session_lifetime_max = None\<rparr>"

definition db_alice :: db where
  "db_alice = \<lparr>rows = [alice], next_id = 2\<rparr>"

text \<open>A second tenant, \<open>bob\<close>, created after \<open>alice\<close>, and the store that holds both.\<close>

definition bob_data :: TenantCreateModel where
  "bob_data =
     \<lparr>c_name = ''bob'', c_is_admin = True, c_api_key = Some ''key-b'', c_ssh_key = ''ssh-rsa BBB'',
      c_node_quota = None, c_session_lifetime = None, c_session_lifetime_max = None\<rparr>"

definition bob :: Tenant where
  "bob =
     \<lparr>t_id = Some 2, t_name = ''bob'', t_is_admin = True, t_api_key = Some ''key-b'',
      t_ssh_key = Some ''ssh-rsa BBB'', t_active = True, t_node_quota = None,
      t_session_lifetime = None, t_session_lifetime_max = None\<rparr>"

definition db_alice_bob :: db where
  "db_alice_bob = \<lparr>rows = [alice, bob], next_id = 3\<rparr>"

definition retire_kwargs :: kwargs where
  "retire_kwargs = no_kwargs\<lparr>kw_id := Some 7, kw_data := Some (RetireData \<lparr>r_active = False\<rparr>)\<rparr>"

section \<open>Facts about the store and the session\<close>

lemma open_session_simps [simp]:
  "database (open_session d) = d" "new (open_session d) = []"
  "dirty (open_session d) = []" "deleted (open_session d) = []"
  by (simp_all add: open_session_def)

lemma distinct_map_filter_eq:
  "distinct (map f xs) \<Longrightarrow> x \<in> set xs \<Longrightarrow> filter (\<lambda>y. f y = f x) xs = [x]"
proof (induction xs)
  case Nil
  then show ?case by simp
next
  case (Cons a xs)
  show ?case
  proof (cases "a = x")
    case True
    with Cons.prems have "f x \<notin> f ` set xs" by simp
    then have "filter (\<lambda>y. f y = f x) xs = []"
      by (auto simp: filter_empty_conv image_iff)
    with True show ?thesis by simp
  next
    case False
    with Cons.prems have in_xs: "x \<in> set xs" and d: "distinct (map f xs)"
      and "f a \<notin> f ` set xs"
      by auto
    then have "f a \<noteq> f x" by auto
    with Cons.IH [OF d in_xs] show ?thesis by simp
  qed
qed

lemma distinct_map_filter_neq:
  "distinct (map f xs) \<Longrightarrow> x \<in> set xs \<Longrightarrow>
   filter (\<lambda>y. f y \<noteq> f x) xs = filter (\<lambda>y. y \<noteq> x) xs"
  by (rule filter_cong) (auto simp: distinct_map inj_on_def)

lemma distinct_map_replace:
  "distinct (map f xs) \<Longrightarrow> x \<in> set xs \<Longrightarrow> f x' = f x \<Longrightarrow>
   map (\<lambda>y. if f y = f x' then x' else y) xs = map (\<lambda>y. if y = x then x' else y) xs"
  by (rule map_cong) (auto simp: distinct_map inj_on_def)

lemma wf_db_id: "wf_db d \<Longrightarrow> t \<in> set (rows d) \<Longrightarrow> \<exists>i. t_id t = Some i \<and> i < next_id d"
  by (auto simp: wf_db_def split: option.splits)

lemma select_by_id_unique:
  assumes "wf_db (database s)" "t \<in> set (rows (database s))" "t_id t = Some i"
  shows "select_by_id i s = [t]"
  using distinct_map_filter_eq [of t_id "rows (database s)" t] assms
  by (simp add: select_by_id_def wf_db_def)

lemma select_id_by_name_unique:
  assumes "wf_db (database s)" "t \<in> set (rows (database s))" "t_name t = n"
  shows "select_id_by_name n s = [t_id t]"
  using distinct_map_filter_eq [of t_name "rows (database s)" t] assms
  by (auto simp add: select_id_by_name_def wf_db_def)

lemma get_tenant_id_found:
  assumes "wf_db d" "t \<in> set (rows d)" "t_name t = n"
  shows "get_tenant_id n d = Inr (t_id t)"
  using select_id_by_name_unique [of "open_session d" t n] assms
  by (cases "t_id t") (simp_all add: get_tenant_id_def sync_session_maker_def)

lemma get_tenant_id_absent:
  assumes "n \<notin> set (map t_name (rows d))"
  shows "get_tenant_id n d = Inr None"
proof -
  have "filter (\<lambda>t. t_name t = n) (rows d) = []"
    using assms by (auto simp: filter_empty_conv)
  then show ?thesis
    by (simp add: get_tenant_id_def sync_session_maker_def select_id_by_name_def)
qed

lemma flush_new_raises: "flush_new ts d = Inl e \<Longrightarrow> \<exists>m. e = IntegrityError m"
proof (induction ts arbitrary: d)
  case Nil
  then show ?case by simp
next
  case (Cons t ts)
  then show ?case
    by (auto simp: Let_def split: if_splits sum.splits)
qed

lemma commit_raises: "commit s = Inl e \<Longrightarrow> \<exists>m. e = IntegrityError m"
  using flush_new_raises [of "new s" "database s" e]
  by (auto simp: commit_def split: sum.splits)

lemma commit_open: "commit (open_session d) = Inr (open_session d, [])"
  by (simp add: commit_def flush_deleted_def open_session_def)

lemma commit_add_open:
  "commit (add t (open_session d)) =
     (if t_name t \<in> set (map t_name (rows d))
      then Inl (IntegrityError (unique_violation (t_name t)))
      else Inr (open_session \<lparr>rows = rows d @ [t\<lparr>t_id := Some (next_id d)\<rparr>],
                              next_id = next_id d + 1\<rparr>,
                [t\<lparr>t_id := Some (next_id d)\<rparr>]))"
  by (simp add: commit_def add_def open_session_def flush_deleted_def Let_def)

lemma commit_delete_open:
  "commit (delete t (open_session d)) =
     Inr (open_session (d\<lparr>rows := filter (\<lambda>r. t_id r \<noteq> t_id t) (rows d)\<rparr>), [])"
  by (simp add: commit_def delete_def open_session_def flush_deleted_def)

lemma commit_dirty_open:
  "commit (mark_dirty t' (open_session d)) =
     Inr (open_session (d\<lparr>rows := map (\<lambda>r. if t_id r = t_id t' then t' else r) (rows d)\<rparr>),
          [])"
  by (simp add: commit_def mark_dirty_def flush_deleted_def)

text \<open>The store's invariants are kept by an insert and by a replacement in place.\<close>

lemma wf_db_empty: "wf_db empty_db"
  by (simp add: wf_db_def empty_db_def)

lemma wf_db_insert:
  assumes "wf_db d" "t_name t \<notin> set (map t_name (rows d))"
  shows "wf_db \<lparr>rows = rows d @ [t\<lparr>t_id := Some (next_id d)\<rparr>], next_id = next_id d + 1\<rparr>"
  using assms by (fastforce simp: wf_db_def split: option.splits)

lemma wf_db_replace_row:
  assumes "wf_db d" "t \<in> set (rows d)" "t_id t' = t_id t" "t_name t' = t_name t"
  shows "wf_db (replace_row t t' d)"
proof -
  let ?f = "\<lambda>r. if r = t then t' else r"
  have ids: "map (t_id \<circ> ?f) (rows d) = map t_id (rows d)"
    using assms(3) by (intro map_cong) auto
  have names: "map (t_name \<circ> ?f) (rows d) = map t_name (rows d)"
    using assms(4) by (intro map_cong) auto
  have bound: "\<forall>r \<in> set (map ?f (rows d)).
      case t_id r of None \<Rightarrow> False | Some i \<Rightarrow> i < next_id (d\<lparr>rows := map ?f (rows d)\<rparr>)"
    using assms by (auto simp: wf_db_def split: option.splits)
  have "distinct (map t_id (map ?f (rows d)))" "distinct (map t_name (map ?f (rows d)))"
    using assms(1) by (simp_all add: ids names wf_db_def)
  with bound show ?thesis
    unfolding wf_db_def replace_row_def by simp
qed

lemma wf_db_remove_row:
  assumes "wf_db d"
  shows "wf_db (remove_row t d)"
  using assms by (auto simp: wf_db_def remove_row_def distinct_map_filter split: option.splits)

lemma replace_row_in: "t \<in> set (rows d) \<Longrightarrow> t' \<in> set (rows (replace_row t t' d))"
  by (auto simp: replace_row_def image_iff)

lemma replace_row_same: "replace_row t t d = d"
  by (simp add: replace_row_def map_idI)

lemma replace_row_twice:
  assumes "wf_db d" "t \<in> set (rows d)" "t_id t' = t_id t"
  shows "replace_row t' t'' (replace_row t t' d) = replace_row t t'' d"
proof -
  have "\<And>r. r \<in> set (rows d) \<Longrightarrow> r \<noteq> t \<Longrightarrow> r \<noteq> t'"
    using assms by (auto simp: wf_db_def distinct_map inj_on_def)
  then have "map ((\<lambda>r. if r = t' then t'' else r) \<circ> (\<lambda>r. if r = t then t' else r)) (rows d) =
        map (\<lambda>r. if r = t then t'' else r) (rows d)"
    by (intro map_cong) auto
  then show ?thesis by (simp add: replace_row_def)
qed

section \<open>Facts about the controller functions\<close>

lemma get_tenant_one:
  "select_by_id i s = [t] \<Longrightarrow> get_tenant i s = (Inr (TenantResult ''get'' t), s)"
  by (simp add: get_tenant_def)

lemma get_tenant_none:
  "select_by_id i s = [] \<Longrightarrow> get_tenant i s = (Inl (HTTPException HTTP_404_NOT_FOUND None), s)"
  by (simp add: get_tenant_def)

lemma delete_tenant_none:
  "select_by_id i s = [] \<Longrightarrow>
   delete_tenant i s = (Inl (HTTPException HTTP_404_NOT_FOUND None), s)"
  by (simp add: delete_tenant_def)

lemma create_tenant_open:
  "create_tenant data (open_session d) =
     (if c_name data \<in> set (map t_name (rows d))
      then (Inl (HTTPException HTTP_409_CONFLICT (Some (unique_violation (c_name data)))),
            add (Tenant_init (c_name data) (c_is_admin data) (c_api_key data)
                   (Some (c_ssh_key data))) (open_session d))
      else (Inr (TenantResult ''post'' (persisted_tenant data d)),
            open_session \<lparr>rows = rows d @ [persisted_tenant data d],
                          next_id = next_id d + 1\<rparr>))"
  unfolding create_tenant_def Let_def commit_add_open
  by (simp add: Tenant_init_def persisted_tenant_def)

lemma database_create_tenant_open:
  "database (snd (create_tenant data (open_session d))) =
     (if c_name data \<in> set (map t_name (rows d)) then d
      else \<lparr>rows = rows d @ [persisted_tenant data d], next_id = next_id d + 1\<rparr>)"
  by (simp add: create_tenant_open add_def)

lemma name_taken_after_create:
  "c_name data \<in> set (map t_name (rows (database (snd (create_tenant data (open_session d))))))"
  by (simp add: database_create_tenant_open persisted_tenant_def Tenant_init_def)

lemma create_tenant_reads_four_fields:
  assumes "c_name data' = c_name data" "c_is_admin data' = c_is_admin data"
    "c_api_key data' = c_api_key data" "c_ssh_key data' = c_ssh_key data"
  shows "create_tenant data' s = create_tenant data s"
  using assms by (simp add: create_tenant_def)

lemma set_fields_id:
  "set_fields data t = Inr t' \<Longrightarrow> t_id t' = t_id t \<and> t_name t' = t_name t"
  by (auto simp: set_fields_def split: payload.splits)

lemma update_tenant_open:
  assumes wf: "wf_db d" and row: "t \<in> set (rows d)" and tid: "t_id t = Some i"
      and sf: "set_fields data t = Inr t'"
  shows "update_tenant i data (open_session d) =
           (Inr (TenantResult update_action t'), open_session (replace_row t t' d))"
proof -
  have sel: "select_by_id i (open_session d) = [t]"
    using select_by_id_unique [of "open_session d" t i] wf row tid by simp
  have "t_id t' = t_id t" using set_fields_id [OF sf] by simp
  then have "map (\<lambda>r. if t_id r = t_id t' then t' else r) (rows d) =
        map (\<lambda>r. if r = t then t' else r) (rows d)"
    using distinct_map_replace [of t_id "rows d" t t'] wf row by (simp add: wf_db_def)
  then show ?thesis
    by (simp add: update_tenant_def sel sf commit_dirty_open replace_row_def)
qed

section \<open>Facts about the admin context\<close>

lemma proxy_never_raises_http:
  "fst (proxy_controller_function_async cf kw d) \<noteq> Inl (HTTPException st det)"
  by (auto simp: proxy_controller_function_async_def Let_def
      split: prod.splits sum.splits exn.splits dest: commit_raises)

lemma proxy_update_tenant:
  assumes wf: "wf_db d" and row: "t \<in> set (rows d)" and tid: "t_id t = Some i"
      and sf: "set_fields data t = Inr t'"
  shows "proxy_controller_function tenant_update_tenant
           (no_kwargs\<lparr>kw_id := Some i, kw_data := Some data\<rparr>) d =
           (Inr (TenantResult update_action t'), replace_row t t' d)"
proof -
  have "tenant_update_tenant
          (no_kwargs\<lparr>kw_id := Some i, kw_data := Some data, kw_tenant := Some fake_api_tenant\<rparr>)
          (open_session d) = update_tenant i data (open_session d)"
    by (simp add: tenant_update_tenant_def unexpected_keyword_def given_def no_kwargs_def)
  then show ?thesis
    by (simp add: proxy_controller_function_def proxy_controller_function_async_def
        async_session_maker_def update_tenant_open [OF assms] commit_open no_kwargs_def)
qed

text \<open>
  Every function that \<open>tenant.py\<close> defines rejects the keyword \<open>tenant\<close> the proxy adds, so a
  proxied call of any of them ends in a \<open>TypeError\<close> that the proxy does not catch.
\<close>

lemma proxy_src_controllers_TypeError:
  assumes "kw_tenant kw = None"
  shows "proxy_controller_function tenant_get_all_tenants kw d = (Inl (TypeError ''tenant''), d)"
    and "proxy_controller_function tenant_get_tenant kw d = (Inl (TypeError ''tenant''), d)"
    and "proxy_controller_function tenant_create_tenant kw d = (Inl (TypeError ''tenant''), d)"
    and "proxy_controller_function tenant_delete_tenant kw d = (Inl (TypeError ''tenant''), d)"
  using assms
  by (simp_all add: proxy_controller_function_def proxy_controller_function_async_def
      tenant_get_all_tenants_def tenant_get_tenant_def tenant_create_tenant_def
      tenant_delete_tenant_def unexpected_keyword_def given_def async_session_maker_def
      rollback_def)

lemma retire_found:
  assumes wf: "wf_db d" and row: "t \<in> set (rows d)" and name: "t_name t = n"
  shows "retire_unretire_tenant n retire d =
           (Inr (TenantResult update_action (t\<lparr>t_active := \<not> retire\<rparr>)),
            replace_row t (t\<lparr>t_active := \<not> retire\<rparr>) d)"
proof -
  obtain i where tid: "t_id t = Some i" using wf_db_id [OF wf row] by blast
  have g: "get_tenant_id n d = Inr (Some i)"
    using get_tenant_id_found [OF wf row name] tid by simp
  have sf: "set_fields (RetireData \<lparr>r_active = \<not> retire\<rparr>) t = Inr (t\<lparr>t_active := \<not> retire\<rparr>)"
    by (simp add: set_fields_def)
  show ?thesis
    by (simp add: retire_unretire_tenant_def g proxy_update_tenant [OF wf row tid sf])
qed

subsection \<open>The keyword dictionary of \<open>AdminContext.update_tenant\<close>\<close>

lemma lookup_kept:
  assumes "distinct (map fst kvs)" and "map_of kvs key = Some v"
  shows "map_of (filter keep kvs) key = (if keep (key, v) then Some v else None)"
  using assms
proof (induction kvs)
  case Nil
  then show ?case by simp
next
  case (Cons kv kvs)
  show ?case
  proof (cases "fst kv = key")
    case True
    with Cons.prems have here: "kv = (key, v)" and "key \<notin> fst ` set kvs"
      by (cases kv; simp)+
    then have "map_of (filter keep kvs) key = None"
      by (auto simp: map_of_eq_None_iff)
    with here show ?thesis by simp
  next
    case False
    with Cons show ?thesis by (cases kv) simp
  qed
qed

lemma locals_distinct: "distinct (map fst (update_tenant_locals n a b c f g i))"
  by (simp add: update_tenant_locals_def)

lemma data_lookup:
  assumes "map_of (update_tenant_locals n a b c f g i) key = Some v"
  shows "map_of (update_tenant_data n a b c f g i) key =
           (if key \<noteq> ''name'' \<and> v \<noteq> PyUNSET then Some v else None)"
  using lookup_kept [OF locals_distinct assms] by (simp add: update_tenant_data_def)

lemma str_field_data:
  "str_field (update_tenant_data n a b c f g i) ''api_key'' = Inr (passed a)"
  "str_field (update_tenant_data n a b c f g i) ''ssh_key'' = Inr (passed b)"
proof -
  have "map_of (update_tenant_locals n a b c f g i) ''api_key'' = Some (py_str a)"
    by (simp add: update_tenant_locals_def)
  from data_lookup [OF this]
  show "str_field (update_tenant_data n a b c f g i) ''api_key'' = Inr (passed a)"
    by (cases a rule: py_str.cases) (simp_all add: str_field_def)
  have "map_of (update_tenant_locals n a b c f g i) ''ssh_key'' = Some (py_str b)"
    by (simp add: update_tenant_locals_def)
  from data_lookup [OF this]
  show "str_field (update_tenant_data n a b c f g i) ''ssh_key'' = Inr (passed b)"
    by (cases b rule: py_str.cases) (simp_all add: str_field_def)
qed

lemma int_field_data:
  "int_field (update_tenant_data n a b c f g i) ''node_quota'' = Inr (passed c)"
proof -
  have "map_of (update_tenant_locals n a b c f g i) ''node_quota'' = Some (py_int c)"
    by (simp add: update_tenant_locals_def)
  from data_lookup [OF this] show ?thesis
    by (cases c rule: py_int.cases) (simp_all add: int_field_def)
qed

lemma timedelta_field_data:
  "timedelta_field (update_tenant_data n a b c f g i) ''session_lifetime'' = Inr (passed f)"
  "timedelta_field (update_tenant_data n a b c f g i) ''session_lifetime_max'' = Inr (passed g)"
proof -
  have "map_of (update_tenant_locals n a b c f g i) ''session_lifetime'' =
          Some (py_timedelta f)"
    by (simp add: update_tenant_locals_def)
  from data_lookup [OF this]
  show "timedelta_field (update_tenant_data n a b c f g i) ''session_lifetime'' =
          Inr (passed f)"
    by (cases f rule: py_timedelta.cases) (simp_all add: timedelta_field_def)
  have "map_of (update_tenant_locals n a b c f g i) ''session_lifetime_max'' =
          Some (py_timedelta g)"
    by (simp add: update_tenant_locals_def)
  from data_lookup [OF this]
  show "timedelta_field (update_tenant_data n a b c f g i) ''session_lifetime_max'' =
          Inr (passed g)"
    by (cases g rule: py_timedelta.cases) (simp_all add: timedelta_field_def)
qed

lemma TenantUpdateModel_init_data:
  "TenantUpdateModel_init (update_tenant_data n a b c f g i) =
     Inr \<lparr>u_api_key = passed a, u_ssh_key = passed b, u_node_quota = passed c,
          u_session_lifetime = passed f, u_session_lifetime_max = passed g\<rparr>"
  by (simp add: TenantUpdateModel_init_def str_field_data int_field_data timedelta_field_data)

text \<open>
  The dictionary itself always carries two entries that are no fields of the payload:
  the comprehension drops \<open>name\<close> and the sentinel values, and keeps \<open>self\<close> and
  \<open>tenant_id\<close>. The payload constructor leaves them out.
\<close>

lemma update_tenant_data_extra_keys:
  "(''self'', PyAdminContext) \<in> set (update_tenant_data n a b c f g i) \<and>
   (''tenant_id'', PyInt i) \<in> set (update_tenant_data n a b c f g i)"
  by (simp add: update_tenant_data_def update_tenant_locals_def)

lemma update_tenant_data_filtered:
  "\<forall>(key, value) \<in> set (update_tenant_data n a b c f g i). value \<noteq> PyUNSET \<and> key \<noteq> ''name''"
  by (auto simp: update_tenant_data_def)

lemma update_found:
  assumes wf: "wf_db d" and row: "t \<in> set (rows d)" and name: "t_name t = n"
      and sf: "set_fields (UpdateData \<lparr>u_api_key = passed a, u_ssh_key = passed b,
                 u_node_quota = passed c, u_session_lifetime = passed f,
                 u_session_lifetime_max = passed g\<rparr>) t = Inr t'"
  shows "AdminContext_update_tenant n a b c f g d =
           (Inr (TenantResult update_action t'), replace_row t t' d)"
proof -
  obtain i where tid: "t_id t = Some i" using wf_db_id [OF wf row] by blast
  have gid: "get_tenant_id n d = Inr (Some i)"
    using get_tenant_id_found [OF wf row name] tid by simp
  show ?thesis
    by (simp add: AdminContext_update_tenant_def gid TenantUpdateModel_init_data
        proxy_update_tenant [OF wf row tid sf])
qed

lemma admin_create_ignores_governance:
  "AdminContext_create_tenant n k nq sl slm adm d =
   AdminContext_create_tenant n k nq' sl' slm' adm d"
proof -
  have "tenant_create_tenant
          (no_kwargs\<lparr>kw_data := Some (CreateData (create_tenant_data n k nq sl slm adm)),
                     kw_tenant := Some fake_api_tenant\<rparr>) s =
        tenant_create_tenant
          (no_kwargs\<lparr>kw_data := Some (CreateData (create_tenant_data n k nq' sl' slm' adm)),
                     kw_tenant := Some fake_api_tenant\<rparr>) s" for s
    by (simp add: tenant_create_tenant_def unexpected_keyword_def given_def no_kwargs_def)
  then show ?thesis
    by (simp add: AdminContext_create_tenant_def proxy_controller_function_def
        proxy_controller_function_async_def no_kwargs_def)
qed

text \<open>The scenario is well formed.\<close>

lemma wf_db_alice: "wf_db db_alice"
  by (simp add: wf_db_def db_alice_def alice_def)

lemma alice_in_db: "alice \<in> set (rows db_alice)"
  by (simp add: db_alice_def)

lemma wf_db_alice_bob: "wf_db db_alice_bob"
  by (simp add: wf_db_def db_alice_bob_def alice_def bob_def)

text \<open>On a well-formed store the lookup by id finds the record that carries the id.\<close>

lemma get_tenant_found:
  assumes "wf_db d" "t \<in> set (rows d)" "t_id t = Some i"
  shows "get_tenant i (req_db_async_session d) =
           (Inr (TenantResult ''get'' t), req_db_async_session d)"
proof -
  have "select_by_id i (open_session d) = [t]"
    using select_by_id_unique [of "open_session d" t i] assms by simp
  then show ?thesis
    by (simp add: req_db_async_session_def get_tenant_one)
qed

section \<open>The proxy boundary\<close>

text \<open>
  Claim C1, as amended. A call through the admin-context proxy
  (\<open>proxy_controller_function\<close>, \<open>proxy_controller_function_async\<close>) never lets an
  \<open>HTTPException\<close> reach the caller: when the controller function raises one, the session
  is rolled back and \<open>{error: {detail: exc.detail}}\<close> is returned. An exception of any
  other class that the controller function raises is not caught: it reaches the caller,
  after the transaction scope rolled the session back.
\<close>

theorem proxy_catches_HTTPException_only:
  "(\<forall>st det. fst (proxy_controller_function cf kw d) \<noteq> Inl (HTTPException st det)) \<and>
   (\<forall>st det. fst (proxy_controller_function_async cf kw d) \<noteq> Inl (HTTPException st det)) \<and>
   (kw_tenant kw = None \<longrightarrow>
      (\<forall>st det s1.
         cf (kw\<lparr>kw_tenant := Some fake_api_tenant\<rparr>) (async_session_maker d) =
           (Inl (HTTPException st det), s1) \<longrightarrow>
         proxy_controller_function cf kw d =
           (Inr (ErrorResult (detail st det)), database (rollback s1))) \<and>
      (\<forall>e s1.
         cf (kw\<lparr>kw_tenant := Some fake_api_tenant\<rparr>) (async_session_maker d) = (Inl e, s1) \<and>
         (\<forall>st det. e \<noteq> HTTPException st det) \<longrightarrow>
         proxy_controller_function cf kw d = (Inl e, database (rollback s1))))"
proof -
  have a: "\<forall>st det. fst (proxy_controller_function_async cf kw d) \<noteq> Inl (HTTPException st det)"
    using proxy_never_raises_http by blast
  have b: "kw_tenant kw = None \<longrightarrow>
      (\<forall>st det s1.
         cf (kw\<lparr>kw_tenant := Some fake_api_tenant\<rparr>) (async_session_maker d) =
           (Inl (HTTPException st det), s1) \<longrightarrow>
         proxy_controller_function cf kw d =
           (Inr (ErrorResult (detail st det)), database (rollback s1)))"
    by (simp add: proxy_controller_function_def proxy_controller_function_async_def)
  have c: "kw_tenant kw = None \<longrightarrow>
      (\<forall>e s1.
         cf (kw\<lparr>kw_tenant := Some fake_api_tenant\<rparr>) (async_session_maker d) = (Inl e, s1) \<and>
         (\<forall>st det. e \<noteq> HTTPException st det) \<longrightarrow>
         proxy_controller_function cf kw d = (Inl e, database (rollback s1)))"
    by (auto simp: proxy_controller_function_def proxy_controller_function_async_def
        split: exn.splits)
  from a b c show ?thesis
    by (simp add: proxy_controller_function_def)
qed

text \<open>
  The theorem at work: an update of an id that has no record raises 404 inside the proxy,
  which answers with the error dictionary; a listing raises \<open>TypeError\<close>, which passes.
\<close>

theorem proxy_catches_HTTPException_only_witness:
  "kw_tenant retire_kwargs = None \<and>
   proxy_controller_function tenant_update_tenant retire_kwargs empty_db =
     (Inr (ErrorResult ''Not Found''), empty_db) \<and>
   proxy_controller_function tenant_get_all_tenants no_kwargs empty_db =
     (Inl (TypeError ''tenant''), empty_db)"
proof -
  have kw: "kw_tenant retire_kwargs = None" "kw_tenant no_kwargs = None"
    by (simp_all add: retire_kwargs_def no_kwargs_def)
  have call1:
    "tenant_update_tenant (retire_kwargs\<lparr>kw_tenant := Some fake_api_tenant\<rparr>)
       (async_session_maker empty_db) =
     (Inl (HTTPException 404 None), async_session_maker empty_db)"
    by (simp add: tenant_update_tenant_def unexpected_keyword_def given_def retire_kwargs_def
        no_kwargs_def update_tenant_def select_by_id_def async_session_maker_def empty_db_def
        HTTP_404_NOT_FOUND_def)
  have call2:
    "tenant_get_all_tenants (no_kwargs\<lparr>kw_tenant := Some fake_api_tenant\<rparr>)
       (async_session_maker empty_db) =
     (Inl (TypeError ''tenant''), async_session_maker empty_db)"
    by (simp add: tenant_get_all_tenants_def unexpected_keyword_def given_def no_kwargs_def)
  have 1: "proxy_controller_function tenant_update_tenant retire_kwargs empty_db =
     (Inr (ErrorResult (detail 404 None)), database (rollback (async_session_maker empty_db)))"
    using proxy_catches_HTTPException_only [of tenant_update_tenant retire_kwargs empty_db]
      kw(1) call1 by blast
  have 2: "proxy_controller_function tenant_get_all_tenants no_kwargs empty_db =
     (Inl (TypeError ''tenant''), database (rollback (async_session_maker empty_db)))"
    using proxy_catches_HTTPException_only [of tenant_get_all_tenants no_kwargs empty_db]
      kw(2) call2 by blast
  from kw 1 2 show ?thesis
    by (simp add: detail_def status_phrase_def rollback_def async_session_maker_def)
qed

text \<open>
  Claim C1 as stated fails: \<open>list_tenants()\<close> on the empty store. The proxy calls
  \<open>get_all_tenants(tenant=..., db_async_session=...)\<close>; the function declares no parameter
  \<open>tenant\<close>, Python raises \<open>TypeError\<close>, the \<open>except HTTPException\<close> clause does not match,
  and the exception reaches the caller of the admin context.
\<close>

theorem list_tenants_propagates_TypeError:
  "list_tenants empty_db = (Inl (TypeError ''tenant''), empty_db)"
  by (simp add: list_tenants_def proxy_controller_function_def
      proxy_controller_function_async_def tenant_get_all_tenants_def no_kwargs_def
      unexpected_keyword_def given_def async_session_maker_def rollback_def)

section \<open>The partial-update payload\<close>

text \<open>
  Claim C2. For every call of the admin context's \<open>update_tenant\<close> on an existing tenant, the
  payload handed to the shared update operation holds exactly the optional fields
  (\<open>api_key\<close>, \<open>ssh_key\<close>, \<open>node_quota\<close>, \<open>session_lifetime\<close>, \<open>session_lifetime_max\<close>) that the
  caller passed: a field still at \<open>UNSET\<close> is filtered out of the keyword dictionary
  before the payload is constructed, \<open>name\<close> never enters it, and the payload has no
  other content.
\<close>

theorem update_tenant_payload_exact:
  "TenantUpdateModel_init
     (update_tenant_data name api_key ssh_key node_quota session_lifetime session_lifetime_max
        tenant_id) =
     Inr \<lparr>u_api_key = passed api_key, u_ssh_key = passed ssh_key,
          u_node_quota = passed node_quota, u_session_lifetime = passed session_lifetime,
          u_session_lifetime_max = passed session_lifetime_max\<rparr> \<and>
   (\<forall>(key, value) \<in> set (update_tenant_data name api_key ssh_key node_quota session_lifetime
                            session_lifetime_max tenant_id).
      value \<noteq> PyUNSET \<and> key \<noteq> ''name'') \<and>
   (get_tenant_id name d = Inr (Some tenant_id) \<longrightarrow>
      AdminContext_update_tenant name api_key ssh_key node_quota session_lifetime
        session_lifetime_max d =
      proxy_controller_function tenant_update_tenant
        (no_kwargs\<lparr>kw_id := Some tenant_id,
                   kw_data := Some (UpdateData
                     \<lparr>u_api_key = passed api_key, u_ssh_key = passed ssh_key,
                      u_node_quota = passed node_quota,
                      u_session_lifetime = passed session_lifetime,
                      u_session_lifetime_max = passed session_lifetime_max\<rparr>)\<rparr>) d)"
proof (intro conjI impI)
  show "TenantUpdateModel_init
     (update_tenant_data name api_key ssh_key node_quota session_lifetime session_lifetime_max
        tenant_id) =
     Inr \<lparr>u_api_key = passed api_key, u_ssh_key = passed ssh_key,
          u_node_quota = passed node_quota, u_session_lifetime = passed session_lifetime,
          u_session_lifetime_max = passed session_lifetime_max\<rparr>"
    by (rule TenantUpdateModel_init_data)
next
  show "\<forall>(key, value) \<in> set (update_tenant_data name api_key ssh_key node_quota session_lifetime
                            session_lifetime_max tenant_id).
      value \<noteq> PyUNSET \<and> key \<noteq> ''name''"
    by (rule update_tenant_data_filtered)
next
  assume "get_tenant_id name d = Inr (Some tenant_id)"
  then show "AdminContext_update_tenant name api_key ssh_key node_quota session_lifetime
        session_lifetime_max d =
      proxy_controller_function tenant_update_tenant
        (no_kwargs\<lparr>kw_id := Some tenant_id,
                   kw_data := Some (UpdateData
                     \<lparr>u_api_key = passed api_key, u_ssh_key = passed ssh_key,
                      u_node_quota = passed node_quota,
                      u_session_lifetime = passed session_lifetime,
                      u_session_lifetime_max = passed session_lifetime_max\<rparr>)\<rparr>) d"
    by (simp add: AdminContext_update_tenant_def TenantUpdateModel_init_data)
qed

theorem update_tenant_payload_exact_witness:
  "get_tenant_id ''alice'' db_alice = Inr (Some 1) \<and>
   TenantUpdateModel_init
     (update_tenant_data ''alice'' UNSET (Value None) (Value (Some 7)) UNSET UNSET 1) =
     Inr \<lparr>u_api_key = None, u_ssh_key = Some None, u_node_quota = Some (Some 7),
          u_session_lifetime = None, u_session_lifetime_max = None\<rparr> \<and>
   AdminContext_update_tenant ''alice'' UNSET (Value None) (Value (Some 7)) UNSET UNSET db_alice =
     proxy_controller_function tenant_update_tenant
       (no_kwargs\<lparr>kw_id := Some 1,
                  kw_data := Some (UpdateData
                    \<lparr>u_api_key = None, u_ssh_key = Some None, u_node_quota = Some (Some 7),
                     u_session_lifetime = None, u_session_lifetime_max = None\<rparr>)\<rparr>) db_alice"
proof -
  have g: "get_tenant_id ''alice'' db_alice = Inr (Some 1)"
    using get_tenant_id_found [OF wf_db_alice alice_in_db, of "''alice''"]
    by (simp add: alice_def)
  from g update_tenant_payload_exact
         [of "''alice''" UNSET "Value None" "Value (Some 7)" UNSET UNSET 1 db_alice]
  show ?thesis by simp
qed

section \<open>Retire and unretire\<close>

text \<open>
  Claim C3. \<open>retire_unretire_tenant(name, retire=True)\<close> sets the tenant's \<open>active\<close> field
  to false and \<open>retire=False\<close> sets it back to true. Either transition needs the tenant to
  exist: for an unknown name the error dictionary with detail \<open>Tenant not found\<close> is
  returned, not raised, and the store is left as it is. A repeated call in the same
  direction returns without error and changes nothing further. Here \<open>t\<close> is the record of
  the tenant in a well-formed store \<open>d\<close>.
\<close>

theorem retire_unretire_toggles_active:
  "(n \<notin> set (map t_name (rows d)) \<longrightarrow>
      retire_unretire_tenant n retire d = (Inr (ErrorResult ''Tenant not found''), d)) \<and>
   (wf_db d \<and> t \<in> set (rows d) \<and> t_name t = n \<longrightarrow>
      (let t' = t\<lparr>t_active := \<not> retire\<rparr>; d' = replace_row t t' d
       in retire_unretire_tenant n retire d = (Inr (TenantResult update_action t'), d') \<and>
          retire_unretire_tenant n retire d' = (Inr (TenantResult update_action t'), d') \<and>
          retire_unretire_tenant n (\<not> retire) d' =
            (Inr (TenantResult update_action (t\<lparr>t_active := retire\<rparr>)),
             replace_row t (t\<lparr>t_active := retire\<rparr>) d)))"
proof (intro conjI impI)
  assume "n \<notin> set (map t_name (rows d))"
  then show "retire_unretire_tenant n retire d = (Inr (ErrorResult ''Tenant not found''), d)"
    by (simp add: retire_unretire_tenant_def get_tenant_id_absent)
next
  assume h: "wf_db d \<and> t \<in> set (rows d) \<and> t_name t = n"
  let ?t' = "t\<lparr>t_active := \<not> retire\<rparr>"
  let ?d' = "replace_row t ?t' d"
  from h have wf: "wf_db d" and row: "t \<in> set (rows d)" and name: "t_name t = n" by auto
  have wf': "wf_db ?d'" using wf_db_replace_row [OF wf row, of ?t'] by simp
  have row': "?t' \<in> set (rows ?d')" using replace_row_in [OF row] .
  have name': "t_name ?t' = n" using name by simp
  have 1: "retire_unretire_tenant n retire d = (Inr (TenantResult update_action ?t'), ?d')"
    using retire_found [OF wf row name] .
  have 2: "retire_unretire_tenant n retire ?d' = (Inr (TenantResult update_action ?t'), ?d')"
    using retire_found [OF wf' row' name', of retire] by (simp add: replace_row_same)
  have 3: "retire_unretire_tenant n (\<not> retire) ?d' =
            (Inr (TenantResult update_action (t\<lparr>t_active := retire\<rparr>)),
             replace_row t (t\<lparr>t_active := retire\<rparr>) d)"
    using retire_found [OF wf' row' name', of "\<not> retire"]
      replace_row_twice [OF wf row, of ?t' "t\<lparr>t_active := retire\<rparr>"] by simp
  from 1 2 3 show "let t' = t\<lparr>t_active := \<not> retire\<rparr>; d' = replace_row t t' d
       in retire_unretire_tenant n retire d = (Inr (TenantResult update_action t'), d') \<and>
          retire_unretire_tenant n retire d' = (Inr (TenantResult update_action t'), d') \<and>
          retire_unretire_tenant n (\<not> retire) d' =
            (Inr (TenantResult update_action (t\<lparr>t_active := retire\<rparr>)),
             replace_row t (t\<lparr>t_active := retire\<rparr>) d)"
    by (simp add: Let_def)
qed

text \<open>Retiring \<open>alice\<close>, retiring her again, bringing her back; and retiring unknown \<open>bob\<close>.\<close>

theorem retire_unretire_toggles_active_witness:
  "wf_db db_alice \<and> alice \<in> set (rows db_alice) \<and> t_name alice = ''alice'' \<and>
   ''bob'' \<notin> set (map t_name (rows db_alice)) \<and>
   retire_unretire_tenant ''bob'' True db_alice =
     (Inr (ErrorResult ''Tenant not found''), db_alice) \<and>
   retire_unretire_tenant ''alice'' True db_alice =
     (Inr (TenantResult update_action (alice\<lparr>t_active := False\<rparr>)),
      \<lparr>rows = [alice\<lparr>t_active := False\<rparr>], next_id = 2\<rparr>) \<and>
   retire_unretire_tenant ''alice'' True \<lparr>rows = [alice\<lparr>t_active := False\<rparr>], next_id = 2\<rparr> =
     (Inr (TenantResult update_action (alice\<lparr>t_active := False\<rparr>)),
      \<lparr>rows = [alice\<lparr>t_active := False\<rparr>], next_id = 2\<rparr>) \<and>
   retire_unretire_tenant ''alice'' False \<lparr>rows = [alice\<lparr>t_active := False\<rparr>], next_id = 2\<rparr> =
     (Inr (TenantResult update_action (alice\<lparr>t_active := True\<rparr>)),
      \<lparr>rows = [alice\<lparr>t_active := True\<rparr>], next_id = 2\<rparr>)"
proof -
  have pre: "wf_db db_alice \<and> alice \<in> set (rows db_alice) \<and> t_name alice = ''alice''"
    using wf_db_alice alice_in_db by (simp add: alice_def)
  have bob: "''bob'' \<notin> set (map t_name (rows db_alice))"
    by (simp add: db_alice_def alice_def)
  have r: "replace_row alice x db_alice = \<lparr>rows = [x], next_id = 2\<rparr>" for x
    by (simp add: replace_row_def db_alice_def)
  from pre bob
    retire_unretire_toggles_active [of "''alice''" db_alice True alice]
    retire_unretire_toggles_active [of "''bob''" db_alice True alice]
  show ?thesis
    by (simp add: Let_def r)
qed

section \<open>Create, get and delete\<close>

text \<open>
  Claim C4. For every tenant created by \<open>create_tenant\<close>, a subsequent \<open>get_tenant\<close> with the
  assigned id succeeds and returns the created record, hence one with the same \<open>id\<close>, \<open>name\<close>
  and \<open>ssh_key\<close>; the name and the key are those of the creation payload. The create
  leaves a well-formed store that holds the record, and the get returns it on that store
  and on every well-formed store that holds it, whatever other records are there and
  wherever the record stands among them.
\<close>

theorem create_then_get_roundtrip:
  assumes wf: "wf_db d"
      and created: "create_tenant data (req_db_async_session d) = (Inr (TenantResult a t), s')"
  shows "\<exists>i. t_id t = Some i \<and>
           get_tenant i (req_db_async_session (database s')) =
             (Inr (TenantResult ''get'' t), req_db_async_session (database s')) \<and>
           t_name t = c_name data \<and> t_ssh_key t = Some (c_ssh_key data) \<and>
           wf_db (database s') \<and> t \<in> set (rows (database s')) \<and>
           (\<forall>d2. wf_db d2 \<and> t \<in> set (rows d2) \<longrightarrow>
              get_tenant i (req_db_async_session d2) =
                (Inr (TenantResult ''get'' t), req_db_async_session d2))"
proof -
  let ?t = "persisted_tenant data d"
  let ?d' = "\<lparr>rows = rows d @ [?t], next_id = next_id d + 1\<rparr>"
  from created have free: "c_name data \<notin> set (map t_name (rows d))"
    and t: "t = ?t" and s': "s' = open_session ?d'"
    by (auto simp: req_db_async_session_def create_tenant_open split: if_splits)
  have wf': "wf_db ?d'"
    using wf_db_insert [OF wf, of "Tenant_init (c_name data) (c_is_admin data)
        (c_api_key data) (Some (c_ssh_key data))"] free
    by (simp add: persisted_tenant_def Tenant_init_def)
  have row': "?t \<in> set (rows ?d')" by simp
  have tid: "t_id ?t = Some (next_id d)"
    and fields: "t_name ?t = c_name data" "t_ssh_key ?t = Some (c_ssh_key data)"
    by (simp_all add: persisted_tenant_def Tenant_init_def)
  have here: "get_tenant (next_id d) (req_db_async_session ?d') =
      (Inr (TenantResult ''get'' ?t), req_db_async_session ?d')"
    by (rule get_tenant_found [OF wf' row' tid])
  have anywhere: "\<forall>d2. wf_db d2 \<and> ?t \<in> set (rows d2) \<longrightarrow>
      get_tenant (next_id d) (req_db_async_session d2) =
        (Inr (TenantResult ''get'' ?t), req_db_async_session d2)"
    using get_tenant_found [OF _ _ tid] by blast
  have db': "database s' = ?d'" by (simp add: s')
  show ?thesis
    unfolding t db'
    using tid fields wf' row' here anywhere by blast
qed

text \<open>
  \<open>alice\<close> is created on the empty store and \<open>bob\<close> after her. On the store that holds both,
  the id of each finds its own record: \<open>alice\<close>, who stands first, and \<open>bob\<close>, who stands last.
\<close>

theorem create_then_get_roundtrip_witness:
  "wf_db empty_db \<and> wf_db db_alice \<and>
   create_tenant alice_data (req_db_async_session empty_db) =
     (Inr (TenantResult ''post'' alice), open_session db_alice) \<and>
   create_tenant bob_data (req_db_async_session db_alice) =
     (Inr (TenantResult ''post'' bob), open_session db_alice_bob) \<and>
   get_tenant 1 (req_db_async_session db_alice) =
     (Inr (TenantResult ''get'' alice), req_db_async_session db_alice) \<and>
   get_tenant 1 (req_db_async_session db_alice_bob) =
     (Inr (TenantResult ''get'' alice), req_db_async_session db_alice_bob) \<and>
   get_tenant 2 (req_db_async_session db_alice_bob) =
     (Inr (TenantResult ''get'' bob), req_db_async_session db_alice_bob) \<and>
   t_name alice = c_name alice_data \<and> t_ssh_key alice = Some (c_ssh_key alice_data) \<and>
   t_name bob = c_name bob_data \<and> t_ssh_key bob = Some (c_ssh_key bob_data)"
proof -
  have ca: "create_tenant alice_data (req_db_async_session empty_db) =
     (Inr (TenantResult ''post'' alice), open_session db_alice)"
    by (simp add: req_db_async_session_def create_tenant_open persisted_tenant_def
        Tenant_init_def alice_data_def alice_def db_alice_def empty_db_def default_active_def
        default_node_quota_def default_session_lifetime_def default_session_lifetime_max_def)
  have cb: "create_tenant bob_data (req_db_async_session db_alice) =
     (Inr (TenantResult ''post'' bob), open_session db_alice_bob)"
    by (simp add: req_db_async_session_def create_tenant_open persisted_tenant_def
        Tenant_init_def bob_data_def bob_def alice_def db_alice_def db_alice_bob_def
        default_active_def default_node_quota_def default_session_lifetime_def
        default_session_lifetime_max_def)
  have ida: "t_id alice = Some 1" and idb: "t_id bob = Some 2"
    by (simp_all add: alice_def bob_def)
  have both: "wf_db db_alice_bob \<and> alice \<in> set (rows db_alice_bob)"
    using wf_db_alice_bob by (simp add: db_alice_bob_def)
  from create_then_get_roundtrip [OF wf_db_empty ca] ida both
  have a: "get_tenant 1 (req_db_async_session db_alice) =
             (Inr (TenantResult ''get'' alice), req_db_async_session db_alice) \<and>
           get_tenant 1 (req_db_async_session db_alice_bob) =
             (Inr (TenantResult ''get'' alice), req_db_async_session db_alice_bob) \<and>
           t_name alice = c_name alice_data \<and> t_ssh_key alice = Some (c_ssh_key alice_data)"
    by auto
  from create_then_get_roundtrip [OF wf_db_alice cb] idb
  have b: "get_tenant 2 (req_db_async_session db_alice_bob) =
             (Inr (TenantResult ''get'' bob), req_db_async_session db_alice_bob) \<and>
           t_name bob = c_name bob_data \<and> t_ssh_key bob = Some (c_ssh_key bob_data)"
    by auto
  from a b ca cb wf_db_empty wf_db_alice show ?thesis by simp
qed

text \<open>
  Claim C5. Of two \<open>create_tenant\<close> calls with the same name the second fails with 409
  Conflict, whose detail is the message of the store's integrity error. The first, on a
  store where the name is free, succeeds (the POST route answers 201) and returns the
  persisted record with its assigned id.
\<close>

theorem duplicate_name_conflict:
  assumes same: "c_name data2 = c_name data1"
  shows
    "(let (r1, s1) = create_tenant data1 (req_db_async_session d);
          request2 = req_db_async_session (database s1);
          tenant2 = Tenant_init (c_name data2) (c_is_admin data2) (c_api_key data2)
                      (Some (c_ssh_key data2))
      in (\<exists>m. commit (add tenant2 request2) = Inl (IntegrityError m) \<and>
               fst (create_tenant data2 request2) =
                 Inl (HTTPException HTTP_409_CONFLICT (Some m))) \<and>
         (c_name data1 \<notin> set (map t_name (rows d)) \<longrightarrow>
            (\<exists>t. r1 = Inr (TenantResult ''post'' t) \<and> t_id t = Some (next_id d) \<and>
                  t_name t = c_name data1 \<and> t \<in> set (rows (database s1)))) \<and>
         success_status POST_create = HTTP_201_CREATED \<and> HTTP_201_CREATED = 201 \<and>
         HTTP_409_CONFLICT = 409)"
proof -
  obtain r1 s1 where c1: "create_tenant data1 (req_db_async_session d) = (r1, s1)"
    by (cases "create_tenant data1 (req_db_async_session d)")
  let ?request2 = "req_db_async_session (database s1)"
  let ?tenant2 = "Tenant_init (c_name data2) (c_is_admin data2) (c_api_key data2)
                      (Some (c_ssh_key data2))"
  have taken: "c_name data2 \<in> set (map t_name (rows (database s1)))"
    using name_taken_after_create [of data1 d] c1 same
    by (simp add: req_db_async_session_def)
  have n2: "t_name ?tenant2 = c_name data2"
    by (simp add: Tenant_init_def)
  have a: "commit (add ?tenant2 ?request2) =
             Inl (IntegrityError (unique_violation (c_name data2)))"
    using taken by (simp add: req_db_async_session_def commit_add_open n2)
  have b: "fst (create_tenant data2 ?request2) =
             Inl (HTTPException HTTP_409_CONFLICT (Some (unique_violation (c_name data2))))"
    using taken by (simp add: req_db_async_session_def create_tenant_open)
  have c: "c_name data1 \<notin> set (map t_name (rows d)) \<longrightarrow>
            (\<exists>t. r1 = Inr (TenantResult ''post'' t) \<and> t_id t = Some (next_id d) \<and>
                  t_name t = c_name data1 \<and> t \<in> set (rows (database s1)))"
    using c1 by (auto simp: req_db_async_session_def create_tenant_open
        persisted_tenant_def Tenant_init_def)
  have e: "success_status POST_create = HTTP_201_CREATED \<and> HTTP_201_CREATED = 201 \<and>
         HTTP_409_CONFLICT = 409"
    by (simp add: success_status_def HTTP_201_CREATED_def HTTP_409_CONFLICT_def)
  from a b c e show ?thesis
    unfolding c1 Let_def by simp
qed

theorem duplicate_name_conflict_witness:
  "c_name alice_data = c_name alice_data \<and>
   c_name alice_data \<notin> set (map t_name (rows empty_db)) \<and>
   create_tenant alice_data (req_db_async_session empty_db) =
     (Inr (TenantResult ''post'' alice), open_session db_alice) \<and>
   (\<exists>m. fst (create_tenant alice_data (req_db_async_session db_alice)) =
           Inl (HTTPException 409 (Some m)))"
proof -
  have c: "create_tenant alice_data (req_db_async_session empty_db) =
     (Inr (TenantResult ''post'' alice), open_session db_alice)"
    by (simp add: req_db_async_session_def create_tenant_open persisted_tenant_def
        Tenant_init_def alice_data_def alice_def db_alice_def empty_db_def default_active_def
        default_node_quota_def default_session_lifetime_def default_session_lifetime_max_def)
  have free: "c_name alice_data \<notin> set (map t_name (rows empty_db))"
    by (simp add: empty_db_def)
  from duplicate_name_conflict [of alice_data alice_data empty_db] c free
  show ?thesis
    by (auto simp: Let_def HTTP_409_CONFLICT_def)
qed

text \<open>
  Claim C6. For an id that no Tenant record has, \<open>get_tenant\<close> and \<open>delete_tenant\<close> fail with
  404 NotFound, whatever the session. On the admin path, the name-to-id lookup of an
  unknown name yields no id, and \<open>show_tenant\<close> returns the error dictionary with detail
  \<open>Tenant not found\<close>.
\<close>

theorem missing_tenant_not_found:
  "((\<forall>t \<in> set (rows (database s)). t_id t \<noteq> Some i) \<longrightarrow>
      get_tenant i s = (Inl (HTTPException HTTP_404_NOT_FOUND None), s) \<and>
      delete_tenant i s = (Inl (HTTPException HTTP_404_NOT_FOUND None), s) \<and>
      HTTP_404_NOT_FOUND = 404) \<and>
   (n \<notin> set (map t_name (rows d)) \<longrightarrow>
      get_tenant_id n d = Inr None \<and>
      show_tenant n d = (Inr (ErrorResult ''Tenant not found''), d))"
proof (intro conjI impI)
  assume "\<forall>t \<in> set (rows (database s)). t_id t \<noteq> Some i"
  then have sel: "select_by_id i s = []"
    by (simp add: select_by_id_def filter_empty_conv)
  show "get_tenant i s = (Inl (HTTPException HTTP_404_NOT_FOUND None), s)"
    by (rule get_tenant_none [OF sel])
  show "delete_tenant i s = (Inl (HTTPException HTTP_404_NOT_FOUND None), s)"
    by (rule delete_tenant_none [OF sel])
  show "HTTP_404_NOT_FOUND = 404"
    by (simp add: HTTP_404_NOT_FOUND_def)
next
  assume absent: "n \<notin> set (map t_name (rows d))"
  show "get_tenant_id n d = Inr None"
    by (rule get_tenant_id_absent [OF absent])
  then show "show_tenant n d = (Inr (ErrorResult ''Tenant not found''), d)"
    by (simp add: show_tenant_def)
qed

theorem missing_tenant_not_found_witness:
  "get_tenant 2 (req_db_async_session db_alice) =
     (Inl (HTTPException 404 None), req_db_async_session db_alice) \<and>
   delete_tenant 2 (req_db_async_session db_alice) =
     (Inl (HTTPException 404 None), req_db_async_session db_alice) \<and>
   show_tenant ''bob'' db_alice = (Inr (ErrorResult ''Tenant not found''), db_alice)"
proof -
  have 1: "\<forall>t \<in> set (rows (database (req_db_async_session db_alice))). t_id t \<noteq> Some 2"
    by (simp add: req_db_async_session_def db_alice_def alice_def)
  have 2: "''bob'' \<notin> set (map t_name (rows db_alice))"
    by (simp add: db_alice_def alice_def)
  from 1 2 missing_tenant_not_found [of "req_db_async_session db_alice" 2 "''bob''" db_alice]
  show ?thesis by simp
qed

text \<open>
  Claim C7. For an id that has a Tenant record, \<open>delete_tenant\<close> removes that record and no
  other, commits before it returns (the session it leaves has no pending work and the
  store no longer holds the record), and returns \<open>{action: "delete", tenant: ...}\<close> with the
  values the record had before the deletion.
\<close>

theorem delete_tenant_removes_and_commits:
  assumes wf: "wf_db d" and row: "t \<in> set (rows d)" and tid: "t_id t = Some i"
  shows "delete_tenant i (req_db_async_session d) =
           (Inr (TenantResult ''delete'' t), open_session (remove_row t d)) \<and>
         t \<notin> set (rows (remove_row t d)) \<and>
         set (rows (remove_row t d)) = set (rows d) - {t} \<and>
         commit (open_session (remove_row t d)) = Inr (open_session (remove_row t d), [])"
proof -
  have sel: "select_by_id i (open_session d) = [t]"
    using select_by_id_unique [of "open_session d" t i] assms by simp
  have "filter (\<lambda>r. t_id r \<noteq> t_id t) (rows d) = filter (\<lambda>r. r \<noteq> t) (rows d)"
    using distinct_map_filter_neq [of t_id "rows d" t] wf row by (simp add: wf_db_def)
  then have "delete_tenant i (req_db_async_session d) =
           (Inr (TenantResult ''delete'' t), open_session (remove_row t d))"
    by (simp add: delete_tenant_def req_db_async_session_def sel commit_delete_open
        remove_row_def)
  moreover have "t \<notin> set (rows (remove_row t d))"
    "set (rows (remove_row t d)) = set (rows d) - {t}"
    by (auto simp: remove_row_def)
  ultimately show ?thesis by (simp add: commit_open)
qed

theorem delete_tenant_removes_and_commits_witness:
  "wf_db db_alice \<and> alice \<in> set (rows db_alice) \<and> t_id alice = Some 1 \<and>
   delete_tenant 1 (req_db_async_session db_alice) =
     (Inr (TenantResult ''delete'' alice), open_session \<lparr>rows = [], next_id = 2\<rparr>)"
proof -
  have tid: "t_id alice = Some 1" by (simp add: alice_def)
  have r: "remove_row alice db_alice = \<lparr>rows = [], next_id = 2\<rparr>"
    by (simp add: remove_row_def db_alice_def)
  from delete_tenant_removes_and_commits [OF wf_db_alice alice_in_db tid]
    wf_db_alice alice_in_db tid
  show ?thesis by (simp add: r)
qed

section \<open>Frame properties of update and create\<close>

text \<open>
  Claim C8. For an existing tenant with record \<open>t\<close> in a well-formed store, the admin
  context's \<open>update_tenant\<close> given only \<open>node_quota\<close> changes the \<open>node_quota\<close> field of that
  record and nothing else: every other field of the record (\<open>api_key\<close> and \<open>ssh_key\<close> among
  them) and every other record stay as they were. Given none of the optional fields it
  changes no field at all: the store afterwards is the store before.
\<close>

theorem update_tenant_only_node_quota:
  "wf_db d \<and> t \<in> set (rows d) \<and> t_name t = n \<longrightarrow>
     AdminContext_update_tenant n UNSET UNSET (Value q) UNSET UNSET d =
       (Inr (TenantResult update_action (t\<lparr>t_node_quota := q\<rparr>)),
        replace_row t (t\<lparr>t_node_quota := q\<rparr>) d) \<and>
     AdminContext_update_tenant n UNSET UNSET UNSET UNSET UNSET d =
       (Inr (TenantResult update_action t), d)"
proof
  assume h: "wf_db d \<and> t \<in> set (rows d) \<and> t_name t = n"
  then have wf: "wf_db d" and row: "t \<in> set (rows d)" and name: "t_name t = n" by auto
  have 1: "AdminContext_update_tenant n UNSET UNSET (Value q) UNSET UNSET d =
       (Inr (TenantResult update_action (t\<lparr>t_node_quota := q\<rparr>)),
        replace_row t (t\<lparr>t_node_quota := q\<rparr>) d)"
    by (rule update_found [OF wf row name]) (simp add: set_fields_def)
  have "AdminContext_update_tenant n UNSET UNSET UNSET UNSET UNSET d =
       (Inr (TenantResult update_action t), replace_row t t d)"
    by (rule update_found [OF wf row name]) (simp add: set_fields_def)
  then have 2: "AdminContext_update_tenant n UNSET UNSET UNSET UNSET UNSET d =
       (Inr (TenantResult update_action t), d)"
    by (simp add: replace_row_same)
  from 1 2 show "AdminContext_update_tenant n UNSET UNSET (Value q) UNSET UNSET d =
       (Inr (TenantResult update_action (t\<lparr>t_node_quota := q\<rparr>)),
        replace_row t (t\<lparr>t_node_quota := q\<rparr>) d) \<and>
     AdminContext_update_tenant n UNSET UNSET UNSET UNSET UNSET d =
       (Inr (TenantResult update_action t), d)" by simp
qed

theorem update_tenant_only_node_quota_witness:
  "wf_db db_alice \<and> alice \<in> set (rows db_alice) \<and> t_name alice = ''alice'' \<and>
   AdminContext_update_tenant ''alice'' UNSET UNSET (Value (Some 7)) UNSET UNSET db_alice =
     (Inr (TenantResult update_action (alice\<lparr>t_node_quota := Some 7\<rparr>)),
      \<lparr>rows = [alice\<lparr>t_node_quota := Some 7\<rparr>], next_id = 2\<rparr>) \<and>
   AdminContext_update_tenant ''alice'' UNSET UNSET UNSET UNSET UNSET db_alice =
     (Inr (TenantResult update_action alice), db_alice)"
proof -
  have pre: "wf_db db_alice \<and> alice \<in> set (rows db_alice) \<and> t_name alice = ''alice''"
    using wf_db_alice alice_in_db by (simp add: alice_def)
  have r: "replace_row alice x db_alice = \<lparr>rows = [x], next_id = 2\<rparr>" for x
    by (simp add: replace_row_def db_alice_def)
  from pre update_tenant_only_node_quota [of db_alice alice "''alice''" "Some 7"]
  show ?thesis by (simp add: r)
qed

text \<open>
  Claim C9. The \<open>node_quota\<close>, \<open>session_lifetime\<close> and \<open>session_lifetime_max\<close> arguments of the
  admin context's \<open>create_tenant\<close> never reach the persisted record. The shared create
  operation reads \<open>name\<close>, \<open>is_admin\<close>, \<open>api_key\<close> and \<open>ssh_key\<close> of the payload only, so its
  outcome on the payload the admin context builds does not depend on the three arguments,
  neither does the outcome of the admin call, and a record created from that payload
  has the three attributes at the store's defaults.
\<close>

theorem create_tenant_drops_governance_fields:
  "create_tenant (create_tenant_data n k nq sl slm adm) s =
     create_tenant (create_tenant_data n k nq' sl' slm' adm) s \<and>
   AdminContext_create_tenant n k nq sl slm adm d =
     AdminContext_create_tenant n k nq' sl' slm' adm d \<and>
   (\<forall>a t s'. create_tenant (create_tenant_data n k nq sl slm adm) (async_session_maker d) =
        (Inr (TenantResult a t), s') \<longrightarrow>
      t \<in> set (rows (database s')) \<and>
      t_name t = n \<and> t_is_admin t = adm \<and> t_ssh_key t = Some k \<and>
      t_node_quota t = default_node_quota \<and>
      t_session_lifetime t = default_session_lifetime \<and>
      t_session_lifetime_max t = default_session_lifetime_max)"
proof -
  have 1: "create_tenant (create_tenant_data n k nq sl slm adm) s =
     create_tenant (create_tenant_data n k nq' sl' slm' adm) s"
    by (rule create_tenant_reads_four_fields) (simp_all add: create_tenant_data_def)
  have 2: "AdminContext_create_tenant n k nq sl slm adm d =
     AdminContext_create_tenant n k nq' sl' slm' adm d"
    by (rule admin_create_ignores_governance)
  have 3: "\<forall>a t s'. create_tenant (create_tenant_data n k nq sl slm adm) (async_session_maker d) =
        (Inr (TenantResult a t), s') \<longrightarrow>
      t \<in> set (rows (database s')) \<and>
      t_name t = n \<and> t_is_admin t = adm \<and> t_ssh_key t = Some k \<and>
      t_node_quota t = default_node_quota \<and>
      t_session_lifetime t = default_session_lifetime \<and>
      t_session_lifetime_max t = default_session_lifetime_max"
    by (auto simp: async_session_maker_def create_tenant_open persisted_tenant_def
        Tenant_init_def create_tenant_data_def split: if_splits)
  from 1 2 3 show ?thesis by blast
qed

theorem create_tenant_drops_governance_fields_witness:
  "create_tenant (create_tenant_data ''alice'' ''ssh-rsa AAA'' (Some 5) (Some 3600) (Some 7200)
     False) (async_session_maker empty_db) =
     (Inr (TenantResult ''post'' alice), open_session db_alice) \<and>
   create_tenant (create_tenant_data ''alice'' ''ssh-rsa AAA'' None None None False)
     (async_session_maker empty_db) =
     (Inr (TenantResult ''post'' alice), open_session db_alice) \<and>
   alice \<in> set (rows db_alice) \<and>
   t_node_quota alice = default_node_quota \<and>
   t_session_lifetime alice = default_session_lifetime \<and>
   t_session_lifetime_max alice = default_session_lifetime_max"
proof -
  have c: "create_tenant (create_tenant_data ''alice'' ''ssh-rsa AAA'' (Some 5) (Some 3600)
     (Some 7200) False) (async_session_maker empty_db) =
     (Inr (TenantResult ''post'' alice), open_session db_alice)"
    by (simp add: async_session_maker_def create_tenant_open persisted_tenant_def
        Tenant_init_def create_tenant_data_def alice_def db_alice_def empty_db_def
        default_active_def default_node_quota_def default_session_lifetime_def
        default_session_lifetime_max_def)
  note th = create_tenant_drops_governance_fields
         [of "''alice''" "''ssh-rsa AAA''" "Some 5" "Some 3600" "Some 7200" False
            "async_session_maker empty_db" None None None empty_db]
  from th have eq:
    "create_tenant (create_tenant_data ''alice'' ''ssh-rsa AAA'' (Some 5) (Some 3600)
       (Some 7200) False) (async_session_maker empty_db) =
     create_tenant (create_tenant_data ''alice'' ''ssh-rsa AAA'' None None None False)
       (async_session_maker empty_db)"
    by blast
  from th c have props:
    "alice \<in> set (rows (database (open_session db_alice))) \<and>
     t_node_quota alice = default_node_quota \<and>
     t_session_lifetime alice = default_session_lifetime \<and>
     t_session_lifetime_max alice = default_session_lifetime_max"
    by blast
  from c eq props show ?thesis by simp
qed

text \<open>
  Claim C10. When \<open>create_tenant\<close> fails with a Conflict, the stored Tenant records are
  the ones from before the call: the conflicting record is not persisted. The failure is
  the integrity error of the commit itself, and nothing was written before it; the
  rollback that follows leaves the store as it is.
\<close>

theorem conflict_leaves_store_unchanged:
  assumes "create_tenant data s = (Inl (HTTPException st det), s')"
  shows "database s' = database s \<and> database (rollback s') = database s \<and>
         (\<exists>m. commit (add (Tenant_init (c_name data) (c_is_admin data) (c_api_key data)
                              (Some (c_ssh_key data))) s) = Inl (IntegrityError m) \<and>
               det = Some m \<and> st = HTTP_409_CONFLICT)"
  using assms
  by (auto simp: create_tenant_def Let_def add_def rollback_def
      split: sum.splits exn.splits prod.splits dest: commit_raises)

theorem conflict_leaves_store_unchanged_witness:
  "create_tenant alice_data (req_db_async_session db_alice) =
     (Inl (HTTPException 409 (Some (unique_violation ''alice''))),
      add (Tenant_init ''alice'' False None (Some ''ssh-rsa AAA''))
        (req_db_async_session db_alice)) \<and>
   database (add (Tenant_init ''alice'' False None (Some ''ssh-rsa AAA''))
     (req_db_async_session db_alice)) = db_alice \<and>
   database (rollback (add (Tenant_init ''alice'' False None (Some ''ssh-rsa AAA''))
     (req_db_async_session db_alice))) = db_alice"
proof -
  have c: "create_tenant alice_data (req_db_async_session db_alice) =
     (Inl (HTTPException 409 (Some (unique_violation ''alice''))),
      add (Tenant_init ''alice'' False None (Some ''ssh-rsa AAA''))
        (req_db_async_session db_alice))"
    by (simp add: req_db_async_session_def create_tenant_open alice_data_def db_alice_def
        alice_def HTTP_409_CONFLICT_def)
  from conflict_leaves_store_unchanged [OF c] c
  show ?thesis by (simp add: req_db_async_session_def)
qed

end
